theory Spec2Isabelle
  imports Main "HOL-Library.Word"
begin

unbundle bit_operations_syntax

section \<open>JavaScript values, exceptions and the imported modules\<close>

text \<open>
  The driver of the e-cash protocol (\<^verbatim>\<open>driver.js\<close>) is embedded function by function.
  A JavaScript function that may throw returns a sum: \<open>Inl\<close> carries the exception,
  \<open>Inr\<close> the returned value. Every thrown value is an error object with a message, as
  the \<^verbatim>\<open>catch\<close> blocks of the driver expect when they read \<^verbatim>\<open>e.message\<close>. Console
  output is not part of the model, and neither is \<^verbatim>\<open>main\<close>, which only chains the
  functions below.
\<close>

type_synonym byte = "8 word"

datatype js_error = Error string | TypeError string | ReferenceError string

text \<open>
  The values a disclosed share can be. A \<open>JBuffer\<close> is an object: it carries its identity
  (its address) next to its bytes, and \<^verbatim>\<open>!==\<close> on two objects compares identities, not
  contents. Strings are byte strings (their UTF-8 encoding). \<open>JNumber\<close> holds the
  integer-valued numbers; \<open>JNaN\<close> is the one number that differs from itself.
\<close>

datatype js_value =
    JUndefined
  | JNull
  | JBoolean bool
  | JNumber int
  | JNaN
  | JString string
  | JBuffer nat "byte list"

text \<open>\<^verbatim>\<open>a !== b\<close>\<close>

fun strict_neq :: "js_value \<Rightarrow> js_value \<Rightarrow> bool" where
  "strict_neq JNaN b = True"
| "strict_neq a JNaN = True"
| "strict_neq (JBuffer p bs) (JBuffer q cs) = (p \<noteq> q)"
| "strict_neq a b = (a \<noteq> b)"

text \<open>
  \<^verbatim>\<open>Buffer.from(v)\<close>: the bytes of a string, a copy of a buffer, and a TypeError for
  \<^verbatim>\<open>undefined\<close>, \<^verbatim>\<open>null\<close>, booleans and numbers.
\<close>

fun Buffer_from :: "js_value \<Rightarrow> js_error + byte list" where
  "Buffer_from (JString s) = Inr (map of_char s)"
| "Buffer_from (JBuffer p bs) = Inr bs"
| "Buffer_from v = Inl (TypeError ''The first argument must be of type string or an instance of Buffer, ArrayBuffer, or Array or an Array-like Object.'')"

text \<open>\<^verbatim>\<open>s.startsWith(p)\<close>\<close>

definition startsWith :: "string \<Rightarrow> string \<Rightarrow> bool" where
  "startsWith s p = (take (length p) s = p)"

text \<open>\<^verbatim>\<open>s.split(d)\<close> for a one-character separator: never the empty list.\<close>

fun js_split :: "string \<Rightarrow> char \<Rightarrow> string list" where
  "js_split [] d = [[]]"
| "js_split (c # cs) d =
     (if c = d then [] # js_split cs d
      else (case js_split cs d of
              [] \<Rightarrow> [[c]]
            | w # ws \<Rightarrow> (c # w) # ws))"

text \<open>\<^verbatim>\<open>xs[n]\<close> on an array of strings: \<^verbatim>\<open>undefined\<close> out of range.\<close>

definition js_index :: "string list \<Rightarrow> nat \<Rightarrow> js_value" where
  "js_index xs n = (if n < length xs then JString (xs ! n) else JUndefined)"

text \<open>The decimal digits of a number, as a template literal prints it.\<close>

fun string_of_nat :: "nat \<Rightarrow> string" where
  "string_of_nat n =
     (if n < 10 then [char_of (48 + n)]
      else string_of_nat (n div 10) @ [char_of (48 + n mod 10)])"

declare string_of_nat.simps [simp del]

text \<open>
  What \<^verbatim>\<open>driver.js\<close> takes from other modules. \<^verbatim>\<open>coin.js\<close> and \<^verbatim>\<open>utils.js\<close> are
  not among the sources, and \<^verbatim>\<open>blind-signatures\<close> and \<^verbatim>\<open>jsbn\<close> are libraries, so the
  constants and functions they export are parameters of every function below:
  \<^item> \<open>COIN_RIS_LENGTH\<close>, \<open>IDENT_STR\<close>: the constants of \<^verbatim>\<open>coin.js\<close>;
  \<^item> \<open>utils_decryptOTP key ciphertext\<close>: \<^verbatim>\<open>utils.decryptOTP({key, ciphertext, returnType: 'string'})\<close>;
  \<^item> \<open>utils_hash\<close>: \<^verbatim>\<open>utils.hash\<close>;
  \<^item> \<open>BigInteger\<close>: \<^verbatim>\<open>new BigInteger(s)\<close> of \<^verbatim>\<open>jsbn\<close>;
  \<^item> \<open>blindSignatures_verify unblinded N E message\<close>: \<^verbatim>\<open>blindSignatures.verify\<close>;
  \<^item> \<open>N\<close>, \<open>E\<close>: the modulus and exponent of the bank key generated at start-up.
\<close>

record env =
  COIN_RIS_LENGTH :: nat
  IDENT_STR :: string
  utils_decryptOTP :: "byte list \<Rightarrow> byte list \<Rightarrow> js_error + string"
  utils_hash :: "js_value \<Rightarrow> js_error + string"
  BigInteger :: "string \<Rightarrow> js_error + int"
  blindSignatures_verify :: "int \<Rightarrow> int \<Rightarrow> int \<Rightarrow> string \<Rightarrow> js_error + bool"
  N :: int
  E :: int

section \<open>Transcripts\<close>

text \<open>
  One element of a transcript, as \<^verbatim>\<open>acceptCoin\<close> pushes it:
  \<^verbatim>\<open>{position: i, isLeft: selectLeft, value: element, hash: expectedHash}\<close>.
\<close>

record ris_element =
  position :: nat
  isLeft :: bool
  "value" :: js_value
  hash :: string

text \<open>
  An argument of \<^verbatim>\<open>determineCheater\<close>: an array of such elements, or a value that
  \<^verbatim>\<open>Array.isArray\<close> rejects. Reading an array beyond its length gives \<^verbatim>\<open>undefined\<close>.
\<close>

datatype js_arg = NotArray | Array "ris_element list"

section \<open>determineCheater\<close>

text \<open>
  The body of the \<^verbatim>\<open>try\<close> block up to \<^verbatim>\<open>decrypted\<close>: the key is built first, then
  the ciphertext, then \<^verbatim>\<open>utils.decryptOTP\<close> runs; each of the three may throw.
\<close>

definition decrypted :: "env \<Rightarrow> js_value \<Rightarrow> js_value \<Rightarrow> js_error + string" where
  "decrypted env v1 v2 =
     (case Buffer_from v1 of
        Inl e \<Rightarrow> Inl e
      | Inr key \<Rightarrow>
          (case Buffer_from v2 of
             Inl e \<Rightarrow> Inl e
           | Inr ciphertext \<Rightarrow> utils_decryptOTP env key ciphertext))"

text \<open>
  The \<^verbatim>\<open>for\<close> loop of \<^verbatim>\<open>determineCheater\<close>, from position \<open>i\<close> on.
  \<^verbatim>\<open>ris1[i].value\<close> throws a TypeError when \<^verbatim>\<open>ris1[i]\<close> is \<^verbatim>\<open>undefined\<close>; that read
  stands outside the \<^verbatim>\<open>try\<close>. Whatever is thrown inside the \<^verbatim>\<open>try\<close> is caught and the
  loop goes on.
\<close>

function scan :: "env \<Rightarrow> ris_element list \<Rightarrow> ris_element list \<Rightarrow> nat \<Rightarrow> js_error + js_value" where
  "scan env ris1 ris2 i =
     (if i < COIN_RIS_LENGTH env then
        (if i < length ris1 \<and> i < length ris2 then
           (if strict_neq (value (ris1 ! i)) (value (ris2 ! i)) then
              (case decrypted env (value (ris1 ! i)) (value (ris2 ! i)) of
                 Inr d \<Rightarrow>
                   (if startsWith d (IDENT_STR env)
                    then Inr (js_index (js_split d CHR '':'') 1)
                    else scan env ris1 ris2 (Suc i))
               | Inl e \<Rightarrow> scan env ris1 ris2 (Suc i))
            else scan env ris1 ris2 (Suc i))
         else Inl (TypeError ''Cannot read properties of undefined (reading value)''))
      else Inr (JString ''merchant''))"
  by pat_completeness auto
termination
  by (relation "measure (\<lambda>(env, ris1, ris2, i). COIN_RIS_LENGTH env - i)") auto

declare scan.simps [simp del]

definition determineCheater :: "env \<Rightarrow> string \<Rightarrow> js_arg \<Rightarrow> js_arg \<Rightarrow> js_error + js_value" where
  "determineCheater env guid ris1 ris2 =
     (case (ris1, ris2) of
        (Array r1, Array r2) \<Rightarrow> scan env r1 r2 0
      | _ \<Rightarrow> Inl (Error ''Invalid RIS data format''))"

text \<open>
  A position identifies a purchaser when the two disclosed values differ and their
  combination decodes to a string with the \<open>IDENT_STR\<close> prefix: the condition under
  which the loop returns.
\<close>

definition identifies :: "env \<Rightarrow> ris_element \<Rightarrow> ris_element \<Rightarrow> bool" where
  "identifies env e1 e2 =
     (strict_neq (value e1) (value e2) \<and>
      (case decrypted env (value e1) (value e2) of
         Inr d \<Rightarrow> startsWith d (IDENT_STR env)
       | Inl e \<Rightarrow> False))"

section \<open>verifySignature and acceptCoin\<close>

text \<open>
  The \<^verbatim>\<open>Coin\<close> class lives in \<^verbatim>\<open>coin.js\<close>; the driver uses of a coin its \<^verbatim>\<open>guid\<close>,
  its \<^verbatim>\<open>signature\<close> field (\<open>None\<close> while the field is absent, \<open>Some s\<close> for a value
  whose \<^verbatim>\<open>toString()\<close> is \<open>s\<close>), its serialization \<^verbatim>\<open>toString()\<close> and the accessor
  \<^verbatim>\<open>getRis(isLeft, i)\<close>.
\<close>

record coin =
  guid :: string
  signature :: "string option"
  toString :: string
  getRis :: "bool \<Rightarrow> nat \<Rightarrow> js_value"

text \<open>
  The \<^verbatim>\<open>try\<close> block of \<^verbatim>\<open>verifySignature\<close>: the object literal evaluates
  \<^verbatim>\<open>new BigInteger(coin.signature.toString())\<close> first and \<^verbatim>\<open>coin.toString()\<close> last, then
  \<^verbatim>\<open>blindSignatures.verify\<close> runs.
\<close>

definition verifySignature_try :: "env \<Rightarrow> coin \<Rightarrow> js_error + bool" where
  "verifySignature_try env c =
     (case signature c of
        None \<Rightarrow> Inl (TypeError ''Cannot read properties of undefined (reading toString)'')
      | Some s \<Rightarrow>
          (case BigInteger env s of
             Inl e \<Rightarrow> Inl e
           | Inr unblinded \<Rightarrow>
               blindSignatures_verify env unblinded (N env) (E env) (toString c)))"

text \<open>The \<^verbatim>\<open>catch\<close> turns every exception of the block into \<^verbatim>\<open>false\<close>.\<close>

definition verifySignature :: "env \<Rightarrow> coin \<Rightarrow> js_error + bool" where
  "verifySignature env c =
     (case verifySignature_try env c of
        Inl e \<Rightarrow> Inr False
      | Inr b \<Rightarrow> Inr b)"

text \<open>
  What an acceptance does to its collaborators, in order: the verification of the
  signature, and each \<^verbatim>\<open>coin.getRis(selectLeft, i)\<close>.
\<close>

datatype event = VerifySignature | GetRis bool nat

text \<open>
  \<^verbatim>\<open>acceptCoin\<close> calls \<^verbatim>\<open>parseCoin(coin.toString())\<close>, but \<^verbatim>\<open>driver.js\<close> neither
  declares nor imports a \<^verbatim>\<open>parseCoin\<close>: the identifier has no binding in the module's
  scope, and evaluating it throws a ReferenceError before the argument is evaluated.
  The scope is modelled as the optional binding of the name; a binding would return the
  pair of hash lists that the call site destructures.
\<close>

definition parseCoin :: "(string \<Rightarrow> js_error + string list \<times> string list) option" where
  "parseCoin = None"

text \<open>\<^verbatim>\<open>xs[i]\<close> on an array of strings, \<open>None\<close> for \<^verbatim>\<open>undefined\<close>.\<close>

definition js_at :: "string list \<Rightarrow> nat \<Rightarrow> string option" where
  "js_at xs i = (if i < length xs then Some (xs ! i) else None)"

text \<open>
  The \<^verbatim>\<open>for\<close> loop of \<^verbatim>\<open>acceptCoin\<close>, from position \<open>i\<close> on. \<open>randomInt i\<close> is the
  outcome of the draw \<^verbatim>\<open>crypto.randomInt(0, 2)\<close> of iteration \<open>i\<close>; \<open>trace\<close> collects the
  events so far and \<open>risElements\<close> the elements pushed so far.
\<close>

function acceptLoop ::
  "env \<Rightarrow> coin \<Rightarrow> (nat \<Rightarrow> nat) \<Rightarrow> string list \<Rightarrow> string list \<Rightarrow> nat \<Rightarrow> event list \<Rightarrow>
   ris_element list \<Rightarrow> event list \<times> (js_error + ris_element list)" where
  "acceptLoop env c randomInt leftHashes rightHashes i trace risElements =
     (if i < COIN_RIS_LENGTH env then
        (let selectLeft = (randomInt i = 0);
             element = getRis c selectLeft i;
             expectedHash = (if selectLeft then js_at leftHashes i else js_at rightHashes i)
         in case utils_hash env element of
              Inl e \<Rightarrow> (trace @ [GetRis selectLeft i], Inl e)
            | Inr h \<Rightarrow>
                if Some h \<noteq> expectedHash
                then (trace @ [GetRis selectLeft i],
                      Inl (Error (''RIS validation failed at position '' @ string_of_nat i)))
                else acceptLoop env c randomInt leftHashes rightHashes (Suc i)
                       (trace @ [GetRis selectLeft i])
                       (risElements @
                          [\<lparr>position = i, isLeft = selectLeft, value = element, hash = h\<rparr>]))
      else (trace, Inr risElements))"
  by pat_completeness auto
termination
  by (relation "measure (\<lambda>(env, c, randomInt, leftHashes, rightHashes, i, trace, risElements).
        COIN_RIS_LENGTH env - i)") auto

declare acceptLoop.simps [simp del]

definition acceptCoin ::
  "env \<Rightarrow> coin \<Rightarrow> (nat \<Rightarrow> nat) \<Rightarrow> event list \<times> (js_error + ris_element list)" where
  "acceptCoin env c randomInt =
     (case verifySignature env c of
        Inl e \<Rightarrow> ([VerifySignature], Inl e)
      | Inr ok \<Rightarrow>
          if \<not> ok
          then ([VerifySignature],
                Inl (Error ''Invalid coin signature: Potential forgery detected''))
          else
            (case parseCoin of
               None \<Rightarrow> ([VerifySignature], Inl (ReferenceError ''parseCoin is not defined''))
             | Some parse \<Rightarrow>
                 (case parse (toString c) of
                    Inl e \<Rightarrow> ([VerifySignature], Inl e)
                  | Inr (leftHashes, rightHashes) \<Rightarrow>
                      acceptLoop env c randomInt leftHashes rightHashes 0 [VerifySignature] [])))"

section \<open>Transcripts of a coin, and a small instance\<close>

text \<open>
  The shape of a transcript that the loop of \<^verbatim>\<open>acceptCoin\<close> builds for a coin: one
  element per position, in order, each holding the share that \<^verbatim>\<open>getRis\<close> reveals for
  the side it records.
\<close>

definition acceptance_transcript :: "env \<Rightarrow> coin \<Rightarrow> ris_element list \<Rightarrow> bool" where
  "acceptance_transcript env c T =
     (length T = COIN_RIS_LENGTH env \<and>
      (\<forall>i < COIN_RIS_LENGTH env.
         position (T ! i) = i \<and> value (T ! i) = getRis c (isLeft (T ! i)) i))"

text \<open>
  Modelled from the spec: the constructor of \<^verbatim>\<open>Coin\<close> (\<^verbatim>\<open>coin.js\<close>) is not among the
  sources. The spec's data model says of the shares of a coin that each pair, combined
  by the one-time-pad decode, yields \<^verbatim>\<open>IDENT_STR + ":" + purchaserIdentity\<close>, and that
  the combination is symmetric.
\<close>

definition constructed_for :: "env \<Rightarrow> coin \<Rightarrow> string \<Rightarrow> bool" where
  "constructed_for env c purchaser =
     (\<forall>i < COIN_RIS_LENGTH env.
        decrypted env (getRis c True i) (getRis c False i)
          = Inr (IDENT_STR env @ '':'' @ purchaser) \<and>
        decrypted env (getRis c False i) (getRis c True i)
          = Inr (IDENT_STR env @ '':'' @ purchaser))"

text \<open>
  The invariant of a transcript element at position \<open>k\<close>: it records the position, the
  share that \<^verbatim>\<open>getRis\<close> reveals for its side, and a hash that is both the hash of that
  share and the commitment of its side.
\<close>

definition verified_element ::
  "env \<Rightarrow> coin \<Rightarrow> string list \<Rightarrow> string list \<Rightarrow> nat \<Rightarrow> ris_element \<Rightarrow> bool" where
  "verified_element env c leftHashes rightHashes k e =
     (position e = k \<and> value e = getRis c (isLeft e) k \<and>
      utils_hash env (value e) = Inr (hash e) \<and>
      Some (hash e) = (if isLeft e then js_at leftHashes k else js_at rightHashes k))"

text \<open>
  Modelled from the spec: \<^verbatim>\<open>utils.decryptOTP\<close> (\<^verbatim>\<open>utils.js\<close>) is not among the sources.
  The spec describes the one-time-pad decode as a symmetric, involutive XOR-style
  operation over equal-length byte strings. This instance and the ones below only
  serve to run the functions on concrete inputs; no theorem about the driver depends
  on them.
\<close>

definition decryptOTP_xor :: "byte list \<Rightarrow> byte list \<Rightarrow> js_error + string" where
  "decryptOTP_xor key ciphertext =
     (if length key \<noteq> length ciphertext
      then Inl (Error ''The length of the key must match the length of the ciphertext.'')
      else Inr (map (\<lambda>b. char_of (unat b)) (map2 (XOR) key ciphertext)))"

text \<open>A checksum standing for the hash, and a toy RSA key (\<open>33 = 3 * 11\<close>, exponent 3).\<close>

definition demo_digest :: "byte list \<Rightarrow> string" where
  "demo_digest bs = string_of_nat (sum_list (map unat bs))"

definition demo_hash :: "js_value \<Rightarrow> js_error + string" where
  "demo_hash v = (case Buffer_from v of Inl e \<Rightarrow> Inl e | Inr bs \<Rightarrow> Inr (demo_digest bs))"

definition demo_BigInteger :: "string \<Rightarrow> js_error + int" where
  "demo_BigInteger s = Inr (foldl (\<lambda>a ch. 10 * a + (of_char ch - 48)) 0 s)"

definition demo_verify :: "int \<Rightarrow> int \<Rightarrow> int \<Rightarrow> string \<Rightarrow> js_error + bool" where
  "demo_verify unblinded n e message =
     Inr (unblinded ^ nat e mod n = foldl (\<lambda>a ch. a + of_char ch) 0 message mod n)"

definition demo_env :: env where
  "demo_env = \<lparr>COIN_RIS_LENGTH = 2, IDENT_STR = ''IDENT'',
     utils_decryptOTP = decryptOTP_xor, utils_hash = demo_hash,
     BigInteger = demo_BigInteger, blindSignatures_verify = demo_verify,
     N = 33, E = 3\<rparr>"

text \<open>
  A coin for the purchaser \<^verbatim>\<open>alice\<close>: every left share is a key, every right share the
  key combined with \<^verbatim>\<open>IDENT:alice\<close>, each share a buffer of its own. Its serialization
  lists the checksums of the left shares and of the right shares, and its signature is
  valid for that serialization under the toy key.
\<close>

definition demo_share :: "bool \<Rightarrow> nat \<Rightarrow> byte list" where
  "demo_share left i =
     (let key = map (\<lambda>k. of_nat (7 * k + 13 * i + 1)) [0..<11]
      in if left then key else map2 (XOR) key (map of_char ''IDENT:alice''))"

definition demo_coin :: coin where
  "demo_coin = \<lparr>guid = ''c0ffee'', signature = Some ''6'',
     toString = ''BANK-20-c0ffee-396,539-730,801'',
     getRis = (\<lambda>left i. JBuffer (2 * i + (if left then 0 else 1)) (demo_share left i))\<rparr>"

definition demo_element :: "nat \<Rightarrow> bool \<Rightarrow> ris_element" where
  "demo_element i side =
     \<lparr>position = i, isLeft = side, value = getRis demo_coin side i,
      hash = demo_digest (demo_share side i)\<rparr>"

text \<open>
  The same coin with the share of position 0 altered after signing, and the same coin
  before it was signed.
\<close>

definition tampered_coin :: coin where
  "tampered_coin =
     demo_coin\<lparr>getRis := (\<lambda>left i. if i = 0 then JBuffer 99 [0] else getRis demo_coin left i)\<rparr>"

definition unsigned_coin :: coin where
  "unsigned_coin = demo_coin\<lparr>signature := None\<rparr>"

section \<open>Properties of the loops\<close>

lemma scan_end:
  "COIN_RIS_LENGTH env \<le> i \<Longrightarrow> scan env ris1 ris2 i = Inr (JString ''merchant'')"
  by (subst scan.simps) simp

lemma scan_undefined:
  "i < COIN_RIS_LENGTH env \<Longrightarrow> length ris1 \<le> i \<or> length ris2 \<le> i \<Longrightarrow>
   scan env ris1 ris2 i = Inl (TypeError ''Cannot read properties of undefined (reading value)'')"
  by (subst scan.simps) auto

lemma scan_skip:
  assumes "i < COIN_RIS_LENGTH env" "i < length ris1" "i < length ris2"
    and "\<not> identifies env (ris1 ! i) (ris2 ! i)"
  shows "scan env ris1 ris2 i = scan env ris1 ris2 (Suc i)"
  using assms by (subst scan.simps) (auto simp: identifies_def split: sum.splits)

lemma scan_hit:
  assumes "i < COIN_RIS_LENGTH env" "i < length ris1" "i < length ris2"
    and "strict_neq (value (ris1 ! i)) (value (ris2 ! i))"
    and "decrypted env (value (ris1 ! i)) (value (ris2 ! i)) = Inr d"
    and "startsWith d (IDENT_STR env)"
  shows "scan env ris1 ris2 i = Inr (js_index (js_split d CHR '':'') 1)"
  using assms by (subst scan.simps) simp

text \<open>Positions that identify nobody are passed over.\<close>

lemma scan_skip_range:
  assumes "j \<le> COIN_RIS_LENGTH env" "j \<le> length ris1" "j \<le> length ris2"
    and "\<And>k. i \<le> k \<Longrightarrow> k < j \<Longrightarrow> \<not> identifies env (ris1 ! k) (ris2 ! k)"
    and "i \<le> j"
  shows "scan env ris1 ris2 i = scan env ris1 ris2 j"
  using assms
proof (induction "j - i" arbitrary: i)
  case 0
  then show ?case by simp
next
  case (Suc n)
  then have lt: "i < j" by simp
  have "scan env ris1 ris2 i = scan env ris1 ris2 (Suc i)"
    using Suc.prems lt by (intro scan_skip) auto
  also have "\<dots> = scan env ris1 ris2 j"
    using Suc.hyps Suc.prems lt by (intro Suc.hyps(1)) auto
  finally show ?case .
qed

lemma scan_first_hit:
  assumes "i < COIN_RIS_LENGTH env" "i < length ris1" "i < length ris2"
    and "\<forall>k<i. \<not> identifies env (ris1 ! k) (ris2 ! k)"
    and "strict_neq (value (ris1 ! i)) (value (ris2 ! i))"
    and "decrypted env (value (ris1 ! i)) (value (ris2 ! i)) = Inr d"
    and "startsWith d (IDENT_STR env)"
  shows "scan env ris1 ris2 0 = Inr (js_index (js_split d CHR '':'') 1)"
proof -
  have "scan env ris1 ris2 0 = scan env ris1 ris2 i"
    using assms(1-4) by (intro scan_skip_range) auto
  also have "\<dots> = Inr (js_index (js_split d CHR '':'') 1)"
    using assms by (intro scan_hit) auto
  finally show ?thesis .
qed

lemma scan_no_hit:
  assumes "COIN_RIS_LENGTH env \<le> length ris1" "COIN_RIS_LENGTH env \<le> length ris2"
    and "\<forall>k < COIN_RIS_LENGTH env. \<not> identifies env (ris1 ! k) (ris2 ! k)"
  shows "scan env ris1 ris2 0 = Inr (JString ''merchant'')"
proof -
  have "scan env ris1 ris2 0 = scan env ris1 ris2 (COIN_RIS_LENGTH env)"
    using assms by (intro scan_skip_range) auto
  then show ?thesis by (simp add: scan_end)
qed

lemma take_same_nth:
  assumes "take j ris1' = take j ris1" "take j ris2' = take j ris2" "i < j"
    and "i < length ris1" "i < length ris2"
  shows "ris1' ! i = ris1 ! i \<and> ris2' ! i = ris2 ! i \<and> i < length ris1' \<and> i < length ris2'"
proof -
  have a: "ris1' ! i = ris1 ! i" using assms(1,3) by (metis nth_take)
  have b: "ris2' ! i = ris2 ! i" using assms(2,3) by (metis nth_take)
  have "length (take j ris1') = length (take j ris1)" using assms(1) by simp
  then have c: "i < length ris1'" using assms(3,4) by simp
  have "length (take j ris2') = length (take j ris2)" using assms(2) by simp
  then have d: "i < length ris2'" using assms(3,5) by simp
  show ?thesis using a b c d by simp
qed

text \<open>Only \<^verbatim>\<open>NaN\<close> differs from itself, and \<^verbatim>\<open>Buffer.from(NaN)\<close> throws.\<close>

lemma strict_neq_self: "strict_neq v v \<Longrightarrow> v = JNaN"
  by (cases v) auto

lemma not_identifies_same_value:
  assumes "value e1 = value e2"
  shows "\<not> identifies env e1 e2"
proof
  assume h: "identifies env e1 e2"
  then have "value e2 = JNaN" using assms by (simp add: identifies_def strict_neq_self)
  then have "decrypted env (value e1) (value e2) = Inl (TypeError ''The first argument must be of type string or an instance of Buffer, ArrayBuffer, or Array or an Array-like Object.'')"
    using assms by (simp add: decrypted_def)
  with h show False by (simp add: identifies_def)
qed

lemma js_split_no_sep: "d \<notin> set s \<Longrightarrow> js_split s d = [s]"
  by (induction s) auto

lemma js_split_first: "d \<notin> set a \<Longrightarrow> js_split (a @ d # b) d = a # js_split b d"
  by (induction a) auto

lemma purchaser_of_format:
  assumes "CHR '':'' \<notin> set ident" "CHR '':'' \<notin> set p"
  shows "js_index (js_split (ident @ '':'' @ p) CHR '':'') 1 = JString p"
  using assms by (simp add: js_split_first js_split_no_sep js_index_def)

lemma demo_env_simps:
  "COIN_RIS_LENGTH demo_env = 2" "IDENT_STR demo_env = ''IDENT''"
  by (simp_all add: demo_env_def)

lemma demo_value: "value (demo_element i side) = getRis demo_coin side i"
  by (simp add: demo_element_def)

lemma demo_differ: "strict_neq (getRis demo_coin True i) (getRis demo_coin False i)"
  by (simp add: demo_coin_def)

lemma demo_decrypted_1:
  "decrypted demo_env (getRis demo_coin True 1) (getRis demo_coin False 1) = Inr ''IDENT:alice''"
  by code_simp

lemma scan_error:
  "scan env ris1 ris2 i = Inl err \<Longrightarrow>
   err = TypeError ''Cannot read properties of undefined (reading value)''"
proof (induction env ris1 ris2 i rule: scan.induct)
  case (1 env ris1 ris2 i)
  from "1.prems" show ?case
    by (subst (asm) scan.simps) (auto split: if_splits sum.splits dest: "1.IH")
qed

lemma scan_returns:
  "COIN_RIS_LENGTH env \<le> length ris1 \<Longrightarrow> COIN_RIS_LENGTH env \<le> length ris2 \<Longrightarrow>
   \<exists>v. scan env ris1 ris2 i = Inr v"
proof (induction env ris1 ris2 i rule: scan.induct)
  case (1 env ris1 ris2 i)
  show ?case
  proof (cases "i < COIN_RIS_LENGTH env")
    case False
    then show ?thesis by (simp add: scan_end)
  next
    case True
    then have len: "i < length ris1 \<and> i < length ris2" using "1.prems" by simp
    show ?thesis
      using True len "1.IH" "1.prems"
      by (subst scan.simps) (auto split: sum.splits)
  qed
qed

lemma scan_take:
  "scan env (take (COIN_RIS_LENGTH env) ris1) (take (COIN_RIS_LENGTH env) ris2) i
   = scan env ris1 ris2 i"
proof (induction env ris1 ris2 i rule: scan.induct)
  case (1 env ris1 ris2 i)
  show ?case
  proof (cases "i < COIN_RIS_LENGTH env")
    case False
    then show ?thesis by (simp add: scan_end)
  next
    case True
    show ?thesis
      using True "1.IH"
      by (subst scan.simps [of env "take (COIN_RIS_LENGTH env) ris1" "take (COIN_RIS_LENGTH env) ris2" i],
          subst scan.simps [of env ris1 ris2 i])
         (auto split: sum.splits)
  qed
qed

lemma demo_decrypted_short:
  "decrypted demo_env (JBuffer 9 [0]) (getRis demo_coin True 0)
   = Inl (Error ''The length of the key must match the length of the ciphertext.'')"
  by code_simp

lemma demo_decrypted_0:
  "decrypted demo_env (getRis demo_coin True 0) (getRis demo_coin False 0) = Inr ''IDENT:alice''"
  by code_simp

lemma demo_decrypted_0_sym:
  "decrypted demo_env (getRis demo_coin False 0) (getRis demo_coin True 0) = Inr ''IDENT:alice''"
  by code_simp

lemma demo_decrypted_1_sym:
  "decrypted demo_env (getRis demo_coin False 1) (getRis demo_coin True 1) = Inr ''IDENT:alice''"
  by code_simp

lemma demo_constructed_for: "constructed_for demo_env demo_coin ''alice''"
  using demo_decrypted_0 demo_decrypted_0_sym demo_decrypted_1 demo_decrypted_1_sym
  by (simp add: constructed_for_def demo_env_simps numeral_2_eq_2 less_Suc_eq)

lemma demo_acceptance_transcript:
  "acceptance_transcript demo_env demo_coin [demo_element 0 s0, demo_element 1 s1]"
  by (simp add: acceptance_transcript_def demo_env_simps numeral_2_eq_2 less_Suc_eq
      demo_element_def)

text \<open>
  Two transcripts of one coin differ at a position only where they disclose opposite
  sides, and there the shares of a coin built for a purchaser decode to that purchaser.
\<close>

lemma identifies_constructed:
  assumes "constructed_for env c purchaser"
    and "acceptance_transcript env c T1" "acceptance_transcript env c T2"
    and "i < COIN_RIS_LENGTH env" "identifies env (T1 ! i) (T2 ! i)"
  shows "decrypted env (value (T1 ! i)) (value (T2 ! i)) = Inr (IDENT_STR env @ '':'' @ purchaser)"
proof -
  have v1: "value (T1 ! i) = getRis c (isLeft (T1 ! i)) i"
    using assms(2,4) by (simp add: acceptance_transcript_def)
  have v2: "value (T2 ! i) = getRis c (isLeft (T2 ! i)) i"
    using assms(3,4) by (simp add: acceptance_transcript_def)
  have ne: "value (T1 ! i) \<noteq> value (T2 ! i)"
    using assms(5) not_identifies_same_value by blast
  have "isLeft (T1 ! i) \<noteq> isLeft (T2 ! i)"
  proof
    assume eq: "isLeft (T1 ! i) = isLeft (T2 ! i)"
    have "value (T1 ! i) = getRis c (isLeft (T2 ! i)) i"
      using v1 eq by simp
    then have "value (T1 ! i) = value (T2 ! i)"
      using v2 by simp
    with ne show False by simp
  qed
  then have "(isLeft (T1 ! i) \<and> \<not> isLeft (T2 ! i)) \<or> (\<not> isLeft (T1 ! i) \<and> isLeft (T2 ! i))"
    by blast
  then show ?thesis
    using assms(1,4) v1 v2 by (auto simp: constructed_for_def)
qed

lemma determineCheater_purchaser_or_merchant:
  assumes "constructed_for env c purchaser"
    and "acceptance_transcript env c T1" "acceptance_transcript env c T2"
    and "CHR '':'' \<notin> set (IDENT_STR env)" "CHR '':'' \<notin> set purchaser"
  shows "determineCheater env g (Array T1) (Array T2) = Inr (JString purchaser)
       \<or> determineCheater env g (Array T1) (Array T2) = Inr (JString ''merchant'')"
proof (cases "\<exists>i < COIN_RIS_LENGTH env. identifies env (T1 ! i) (T2 ! i)")
  case False
  have "length T1 = COIN_RIS_LENGTH env" "length T2 = COIN_RIS_LENGTH env"
    using assms(2,3) by (simp_all add: acceptance_transcript_def)
  then have "scan env T1 T2 0 = Inr (JString ''merchant'')"
    using False by (intro scan_no_hit) auto
  then show ?thesis by (simp add: determineCheater_def)
next
  case True
  define P where "P i = (i < COIN_RIS_LENGTH env \<and> identifies env (T1 ! i) (T2 ! i))" for i
  define i where "i = (LEAST i. P i)"
  have ex: "\<exists>i. P i" using True by (auto simp: P_def)
  then have Pi: "P i" unfolding i_def by (metis LeastI)
  have least: "\<not> P k" if "k < i" for k
    using that unfolding i_def by (rule not_less_Least)
  have lt: "i < COIN_RIS_LENGTH env" and hit: "identifies env (T1 ! i) (T2 ! i)"
    using Pi by (simp_all add: P_def)
  have len: "i < length T1" "i < length T2"
    using assms(2,3) lt by (simp_all add: acceptance_transcript_def)
  have before: "\<forall>k<i. \<not> identifies env (T1 ! k) (T2 ! k)"
    using least lt by (auto simp: P_def)
  have dec: "decrypted env (value (T1 ! i)) (value (T2 ! i))
      = Inr (IDENT_STR env @ '':'' @ purchaser)"
    using identifies_constructed [OF assms(1-3) lt hit] .
  have neq: "strict_neq (value (T1 ! i)) (value (T2 ! i))"
    using hit by (simp add: identifies_def)
  have pre: "startsWith (IDENT_STR env @ '':'' @ purchaser) (IDENT_STR env)"
    by (simp add: startsWith_def)
  have "scan env T1 T2 0
      = Inr (js_index (js_split (IDENT_STR env @ '':'' @ purchaser) CHR '':'') 1)"
    using scan_first_hit [OF lt len before neq dec pre] .
  also have "\<dots> = Inr (JString purchaser)"
    using purchaser_of_format [OF assms(4,5)] by simp
  finally show ?thesis
    by (simp add: determineCheater_def)
qed

section \<open>Properties of verifySignature and acceptCoin\<close>

lemma verifySignature_returns: "\<exists>b. verifySignature env c = Inr b"
  by (cases "verifySignature_try env c") (auto simp: verifySignature_def)

lemma acceptCoin_rejects:
  "verifySignature env c = Inr False \<Longrightarrow>
   acceptCoin env c randomInt
     = ([VerifySignature], Inl (Error ''Invalid coin signature: Potential forgery detected''))"
  by (simp add: acceptCoin_def)

lemma acceptCoin_unbound:
  "verifySignature env c = Inr True \<Longrightarrow>
   acceptCoin env c randomInt
     = ([VerifySignature], Inl (ReferenceError ''parseCoin is not defined''))"
  by (simp add: acceptCoin_def parseCoin_def)

lemma acceptCoin_cases:
  "acceptCoin env c randomInt
     = ([VerifySignature], Inl (Error ''Invalid coin signature: Potential forgery detected''))
   \<or> acceptCoin env c randomInt
     = ([VerifySignature], Inl (ReferenceError ''parseCoin is not defined''))"
proof -
  obtain b where "verifySignature env c = Inr b"
    using verifySignature_returns by blast
  then show ?thesis
    using acceptCoin_rejects [of env c randomInt] acceptCoin_unbound [of env c randomInt]
    by (cases b) simp_all
qed

lemma demo_verifies: "verifySignature demo_env demo_coin = Inr True"
  by code_simp

lemma tampered_verifies: "verifySignature demo_env tampered_coin = Inr True"
  by code_simp

lemma unsigned_fails: "verifySignature demo_env unsigned_coin = Inr False"
  by code_simp

text \<open>
  What the loop does once it runs: at the first position whose revealed share does not
  hash to the expected commitment it stops with the error that names the position.
\<close>

lemma acceptLoop_mismatch:
  assumes "i < COIN_RIS_LENGTH env"
    and "utils_hash env (getRis c (randomInt i = 0) i) = Inr h"
    and "Some h \<noteq> (if randomInt i = 0 then js_at leftHashes i else js_at rightHashes i)"
  shows "acceptLoop env c randomInt leftHashes rightHashes i trace risElements
     = (trace @ [GetRis (randomInt i = 0) i],
        Inl (Error (''RIS validation failed at position '' @ string_of_nat i)))"
  using assms by (subst acceptLoop.simps) (simp add: Let_def)

lemma acceptLoop_match:
  assumes "i < COIN_RIS_LENGTH env"
    and "utils_hash env (getRis c (randomInt i = 0) i) = Inr h"
    and "Some h = (if randomInt i = 0 then js_at leftHashes i else js_at rightHashes i)"
  shows "acceptLoop env c randomInt leftHashes rightHashes i trace risElements
     = acceptLoop env c randomInt leftHashes rightHashes (Suc i)
         (trace @ [GetRis (randomInt i = 0) i])
         (risElements @ [\<lparr>position = i, isLeft = (randomInt i = 0),
            value = getRis c (randomInt i = 0) i, hash = h\<rparr>])"
  using assms by (subst acceptLoop.simps) (simp add: Let_def)

lemma acceptLoop_end:
  "COIN_RIS_LENGTH env \<le> i \<Longrightarrow>
   acceptLoop env c randomInt leftHashes rightHashes i trace risElements = (trace, Inr risElements)"
  by (subst acceptLoop.simps) simp

lemma demo_hashes:
  "utils_hash demo_env (getRis demo_coin True 0) = Inr ''396''"
  "utils_hash demo_env (getRis demo_coin False 1) = Inr ''801''"
  "utils_hash demo_env (getRis tampered_coin True 0) = Inr ''0''"
  by code_simp+

lemma demo_digests:
  "demo_digest (demo_share True 0) = ''396''" "demo_digest (demo_share False 1) = ''801''"
  by code_simp+

lemma demo_signature:
  "signature demo_coin = Some ''6''" "BigInteger demo_env ''6'' = Inr 6"
  "blindSignatures_verify demo_env 6 (N demo_env) (E demo_env) (toString demo_coin) = Inr True"
  by code_simp+

text \<open>
  When the loop returns, it returns one element per position, in order, each holding
  the revealed share and the commitment that the share hashes to.
\<close>

lemma acceptLoop_transcript:
  assumes "acceptLoop env c randomInt leftHashes rightHashes i trace risElements = (trace', Inr T)"
    and "i \<le> COIN_RIS_LENGTH env" "length risElements = i"
    and "\<forall>k<i. verified_element env c leftHashes rightHashes k (risElements ! k)"
  shows "length T = COIN_RIS_LENGTH env
       \<and> (\<forall>k < COIN_RIS_LENGTH env. verified_element env c leftHashes rightHashes k (T ! k))"
  using assms
proof (induction "COIN_RIS_LENGTH env - i" arbitrary: i trace risElements)
  case 0
  then have "i = COIN_RIS_LENGTH env" by simp
  then have "acceptLoop env c randomInt leftHashes rightHashes i trace risElements
      = (trace, Inr risElements)"
    by (simp add: acceptLoop_end)
  with "0.prems" \<open>i = COIN_RIS_LENGTH env\<close> show ?case by simp
next
  case (Suc n)
  then have lt: "i < COIN_RIS_LENGTH env" by simp
  let ?side = "randomInt i = 0"
  let ?expected = "if ?side then js_at leftHashes i else js_at rightHashes i"
  from Suc.prems(1) lt obtain h where h: "utils_hash env (getRis c ?side i) = Inr h"
    by (subst (asm) acceptLoop.simps) (auto simp: Let_def split: sum.splits)
  have ok: "Some h = ?expected"
  proof (rule ccontr)
    assume "Some h \<noteq> ?expected"
    then have "acceptLoop env c randomInt leftHashes rightHashes i trace risElements
        = (trace @ [GetRis ?side i],
           Inl (Error (''RIS validation failed at position '' @ string_of_nat i)))"
      using lt h by (intro acceptLoop_mismatch) simp_all
    with Suc.prems(1) show False by simp
  qed
  let ?new = "\<lparr>position = i, isLeft = ?side, value = getRis c ?side i, hash = h\<rparr>"
  have step: "acceptLoop env c randomInt leftHashes rightHashes (Suc i)
      (trace @ [GetRis ?side i]) (risElements @ [?new]) = (trace', Inr T)"
    using acceptLoop_match [of i env c randomInt h leftHashes rightHashes trace risElements]
      lt h ok Suc.prems(1) by simp
  have new: "verified_element env c leftHashes rightHashes i ?new"
    using h ok by (simp add: verified_element_def)
  have inv: "\<forall>k < Suc i. verified_element env c leftHashes rightHashes k ((risElements @ [?new]) ! k)"
    using Suc.prems(3,4) new by (auto simp: nth_append less_Suc_eq)
  show ?case
    using Suc.hyps(1) [of "Suc i" "trace @ [GetRis ?side i]" "risElements @ [?new]"]
      Suc.hyps(2) step lt Suc.prems(3) inv
    by simp
qed

section \<open>Claims about determineCheater\<close>

text \<open>
  C1, as the claim states it, fails: the value returned is not always the purchaser
  identity that follows \<open>IDENT_STR\<close> in the decoded string. At position 0 of the two
  transcripts below the values differ and decode to \<^verbatim>\<open>IDENT:a:b\<close>, which starts with
  \<open>IDENT_STR\<close> and continues with the identity \<^verbatim>\<open>a:b\<close>, yet \<^verbatim>\<open>determineCheater\<close>
  returns \<^verbatim>\<open>a\<close>; and where they decode to \<^verbatim>\<open>IDENTxyz\<close>, which also starts with
  \<open>IDENT_STR\<close>, it returns \<^verbatim>\<open>undefined\<close>.
\<close>

theorem determineCheater_cuts_purchaser:
  "strict_neq (JBuffer 10 [0, 0, 0, 0, 0, 0, 0, 0, 0]) (JString ''IDENT:a:b'')
   \<and> decrypted demo_env (JBuffer 10 [0, 0, 0, 0, 0, 0, 0, 0, 0]) (JString ''IDENT:a:b'')
       = Inr ''IDENT:a:b''
   \<and> startsWith ''IDENT:a:b'' (IDENT_STR demo_env)
   \<and> determineCheater demo_env ''c0ffee''
       (Array [(demo_element 0 True)\<lparr>value := JBuffer 10 [0, 0, 0, 0, 0, 0, 0, 0, 0]\<rparr>,
               demo_element 1 True])
       (Array [(demo_element 0 False)\<lparr>value := JString ''IDENT:a:b''\<rparr>,
               demo_element 1 True])
     = Inr (JString ''a'')
   \<and> strict_neq (JBuffer 11 [0, 0, 0, 0, 0, 0, 0, 0]) (JString ''IDENTxyz'')
   \<and> decrypted demo_env (JBuffer 11 [0, 0, 0, 0, 0, 0, 0, 0]) (JString ''IDENTxyz'')
       = Inr ''IDENTxyz''
   \<and> startsWith ''IDENTxyz'' (IDENT_STR demo_env)
   \<and> determineCheater demo_env ''c0ffee''
       (Array [(demo_element 0 True)\<lparr>value := JBuffer 11 [0, 0, 0, 0, 0, 0, 0, 0]\<rparr>,
               demo_element 1 True])
       (Array [(demo_element 0 False)\<lparr>value := JString ''IDENTxyz''\<rparr>,
               demo_element 1 True])
     = Inr JUndefined"
proof -
  let ?k1 = "JBuffer 10 [0, 0, 0, 0, 0, 0, 0, 0, 0]" and ?k2 = "JBuffer 11 [0, 0, 0, 0, 0, 0, 0, 0]"
  let ?A1 = "[(demo_element 0 True)\<lparr>value := ?k1\<rparr>, demo_element 1 True]"
  let ?B1 = "[(demo_element 0 False)\<lparr>value := JString ''IDENT:a:b''\<rparr>, demo_element 1 True]"
  let ?A2 = "[(demo_element 0 True)\<lparr>value := ?k2\<rparr>, demo_element 1 True]"
  let ?B2 = "[(demo_element 0 False)\<lparr>value := JString ''IDENTxyz''\<rparr>, demo_element 1 True]"
  have d1: "decrypted demo_env ?k1 (JString ''IDENT:a:b'') = Inr ''IDENT:a:b''"
    by code_simp
  have d2: "decrypted demo_env ?k2 (JString ''IDENTxyz'') = Inr ''IDENTxyz''"
    by code_simp
  have p1: "startsWith ''IDENT:a:b'' (IDENT_STR demo_env)"
    and p2: "startsWith ''IDENTxyz'' (IDENT_STR demo_env)"
    by (simp_all add: startsWith_def demo_env_simps)
  have "scan demo_env ?A1 ?B1 0 = Inr (js_index (js_split ''IDENT:a:b'' CHR '':'') 1)"
    using d1 p1 by (intro scan_hit) (simp_all add: demo_env_simps)
  then have r1: "determineCheater demo_env ''c0ffee'' (Array ?A1) (Array ?B1) = Inr (JString ''a'')"
    by (simp add: determineCheater_def js_index_def)
  have "scan demo_env ?A2 ?B2 0 = Inr (js_index (js_split ''IDENTxyz'' CHR '':'') 1)"
    using d2 p2 by (intro scan_hit) (simp_all add: demo_env_simps)
  then have r2: "determineCheater demo_env ''c0ffee'' (Array ?A2) (Array ?B2) = Inr JUndefined"
    by (simp add: determineCheater_def js_index_def)
  show ?thesis
    using d1 d2 p1 p2 r1 r2 by simp
qed

text \<open>
  C1, amended. Let position \<open>i\<close> be reached by the scan (no earlier position identifies
  anybody), let the two values at \<open>i\<close> differ and let their one-time-pad combination
  decode to a string \<open>d\<close> that starts with \<open>IDENT_STR\<close>. Then \<^verbatim>\<open>determineCheater\<close>
  returns \<^verbatim>\<open>d.split(':')[1]\<close>, the text between the first and the second colon of \<open>d\<close>
  (\<^verbatim>\<open>undefined\<close> when \<open>d\<close> has no colon); it returns it whatever stands at the positions
  after \<open>i\<close>, even when the arrays end there; and when \<open>d\<close> has the delimited format
  \<^verbatim>\<open>IDENT_STR:purchaser\<close>, with no colon inside \<open>IDENT_STR\<close> or the purchaser, the
  returned value is that purchaser.
\<close>

theorem determineCheater_returns_purchaser:
  assumes "i < COIN_RIS_LENGTH env" "i < length ris1" "i < length ris2"
    and "\<forall>k<i. \<not> identifies env (ris1 ! k) (ris2 ! k)"
    and "strict_neq (value (ris1 ! i)) (value (ris2 ! i))"
    and "decrypted env (value (ris1 ! i)) (value (ris2 ! i)) = Inr d"
    and "startsWith d (IDENT_STR env)"
  shows "determineCheater env g (Array ris1) (Array ris2) = Inr (js_index (js_split d CHR '':'') 1)
       \<and> (\<forall>ris1' ris2'.
             take (Suc i) ris1' = take (Suc i) ris1 \<and> take (Suc i) ris2' = take (Suc i) ris2
             \<longrightarrow> determineCheater env g (Array ris1') (Array ris2')
                   = Inr (js_index (js_split d CHR '':'') 1))
       \<and> (\<forall>p. d = IDENT_STR env @ '':'' @ p \<and> CHR '':'' \<notin> set (IDENT_STR env) \<and> CHR '':'' \<notin> set p
             \<longrightarrow> determineCheater env g (Array ris1) (Array ris2) = Inr (JString p))"
proof (intro conjI allI impI)
  show a: "determineCheater env g (Array ris1) (Array ris2) = Inr (js_index (js_split d CHR '':'') 1)"
    using scan_first_hit [OF assms] by (simp add: determineCheater_def)
  show "determineCheater env g (Array ris1) (Array ris2) = Inr (JString p)"
    if "d = IDENT_STR env @ '':'' @ p \<and> CHR '':'' \<notin> set (IDENT_STR env) \<and> CHR '':'' \<notin> set p" for p
    using a that purchaser_of_format [of "IDENT_STR env" p] by simp
  show "determineCheater env g (Array ris1') (Array ris2') = Inr (js_index (js_split d CHR '':'') 1)"
    if h: "take (Suc i) ris1' = take (Suc i) ris1 \<and> take (Suc i) ris2' = take (Suc i) ris2"
    for ris1' ris2'
  proof -
    have same: "ris1' ! k = ris1 ! k \<and> ris2' ! k = ris2 ! k \<and> k < length ris1' \<and> k < length ris2'"
      if "k \<le> i" for k
      using take_same_nth [of "Suc i" ris1' ris1 ris2' ris2 k] h that assms(2,3) by simp
    have "scan env ris1' ris2' 0 = Inr (js_index (js_split d CHR '':'') 1)"
      using assms same by (intro scan_first_hit [of i]) auto
    then show ?thesis by (simp add: determineCheater_def)
  qed
qed

theorem determineCheater_returns_purchaser_witness:
  "determineCheater demo_env ''c0ffee''
     (Array [demo_element 0 True, demo_element 1 True])
     (Array [demo_element 0 True, demo_element 1 False]) = Inr (JString ''alice'')
   \<and> determineCheater demo_env ''c0ffee''
     (Array [demo_element 0 True, demo_element 1 True, demo_element 2 False])
     (Array [demo_element 0 True, demo_element 1 False]) = Inr (JString ''alice'')"
proof -
  let ?r1 = "[demo_element 0 True, demo_element 1 True]"
  let ?r2 = "[demo_element 0 True, demo_element 1 False]"
  have hyps: "1 < COIN_RIS_LENGTH demo_env" "1 < length ?r1" "1 < length ?r2"
    "\<forall>k<1. \<not> identifies demo_env (?r1 ! k) (?r2 ! k)"
    "strict_neq (value (?r1 ! 1)) (value (?r2 ! 1))"
    "decrypted demo_env (value (?r1 ! 1)) (value (?r2 ! 1)) = Inr ''IDENT:alice''"
    "startsWith ''IDENT:alice'' (IDENT_STR demo_env)"
    using demo_differ [of 1] demo_decrypted_1
    by (simp_all add: demo_env_simps demo_value not_identifies_same_value startsWith_def)
  have fmt: "''IDENT:alice'' = IDENT_STR demo_env @ '':'' @ ''alice''
      \<and> CHR '':'' \<notin> set (IDENT_STR demo_env) \<and> CHR '':'' \<notin> set ''alice''"
    by (simp add: demo_env_simps)
  have same: "take (Suc 1) [demo_element 0 True, demo_element 1 True, demo_element 2 False]
        = take (Suc 1) ?r1 \<and> take (Suc 1) ?r2 = take (Suc 1) ?r2"
    by simp
  note t = determineCheater_returns_purchaser [OF hyps, of "''c0ffee''"]
  have a: "determineCheater demo_env ''c0ffee'' (Array ?r1) (Array ?r2) = Inr (JString ''alice'')"
    using t fmt by blast
  have b: "determineCheater demo_env ''c0ffee''
     (Array [demo_element 0 True, demo_element 1 True, demo_element 2 False]) (Array ?r2)
     = Inr (js_index (js_split ''IDENT:alice'' CHR '':'') 1)"
    using t same by blast
  have "js_index (js_split ''IDENT:alice'' CHR '':'') 1 = JString ''alice''"
    by (simp add: js_index_def)
  with a b show ?thesis by simp
qed

text \<open>
  C2. For a transcript \<open>T\<close> of length \<open>COIN_RIS_LENGTH\<close>, \<^verbatim>\<open>determineCheater(guid, T, T)\<close>
  returns \<^verbatim>\<open>"merchant"\<close>; and for two transcripts of that length in which no position
  holds differing values whose combination decodes to a string with the \<open>IDENT_STR\<close>
  prefix, \<^verbatim>\<open>determineCheater\<close> returns \<^verbatim>\<open>"merchant"\<close>.
\<close>

theorem determineCheater_merchant:
  "(length T = COIN_RIS_LENGTH env
      \<longrightarrow> determineCheater env g (Array T) (Array T) = Inr (JString ''merchant''))
   \<and> (length T1 = COIN_RIS_LENGTH env \<and> length T2 = COIN_RIS_LENGTH env
        \<and> (\<forall>i < COIN_RIS_LENGTH env. \<not> identifies env (T1 ! i) (T2 ! i))
      \<longrightarrow> determineCheater env g (Array T1) (Array T2) = Inr (JString ''merchant''))"
proof (intro conjI impI)
  assume "length T = COIN_RIS_LENGTH env"
  then have "scan env T T 0 = Inr (JString ''merchant'')"
    by (intro scan_no_hit) (simp_all add: not_identifies_same_value)
  then show "determineCheater env g (Array T) (Array T) = Inr (JString ''merchant'')"
    by (simp add: determineCheater_def)
next
  assume "length T1 = COIN_RIS_LENGTH env \<and> length T2 = COIN_RIS_LENGTH env
        \<and> (\<forall>i < COIN_RIS_LENGTH env. \<not> identifies env (T1 ! i) (T2 ! i))"
  then have "scan env T1 T2 0 = Inr (JString ''merchant'')"
    by (intro scan_no_hit) simp_all
  then show "determineCheater env g (Array T1) (Array T2) = Inr (JString ''merchant'')"
    by (simp add: determineCheater_def)
qed

theorem determineCheater_merchant_witness:
  "determineCheater demo_env ''c0ffee''
     (Array [demo_element 0 True, demo_element 1 False])
     (Array [demo_element 0 True, demo_element 1 False]) = Inr (JString ''merchant'')
   \<and> determineCheater demo_env ''c0ffee''
     (Array [(demo_element 0 False)\<lparr>value := JBuffer 9 [0]\<rparr>, demo_element 1 True])
     (Array [demo_element 0 True, demo_element 1 True]) = Inr (JString ''merchant'')"
proof -
  let ?T = "[demo_element 0 True, demo_element 1 False]"
  let ?T1 = "[(demo_element 0 False)\<lparr>value := JBuffer 9 [0]\<rparr>, demo_element 1 True]"
  let ?T2 = "[demo_element 0 True, demo_element 1 True]"
  have no0: "\<not> identifies demo_env (?T1 ! 0) (?T2 ! 0)"
    using demo_decrypted_short by (simp add: identifies_def demo_value)
  have no1: "\<not> identifies demo_env (?T1 ! 1) (?T2 ! 1)"
    by (simp add: not_identifies_same_value)
  have none: "\<forall>i < COIN_RIS_LENGTH demo_env. \<not> identifies demo_env (?T1 ! i) (?T2 ! i)"
    using no0 no1 by (simp add: demo_env_simps numeral_2_eq_2 less_Suc_eq)
  have len: "length ?T = COIN_RIS_LENGTH demo_env" "length ?T1 = COIN_RIS_LENGTH demo_env"
    "length ?T2 = COIN_RIS_LENGTH demo_env"
    by (simp_all add: demo_env_simps)
  note t = determineCheater_merchant [of _ demo_env "''c0ffee''"]
  have a: "determineCheater demo_env ''c0ffee'' (Array ?T) (Array ?T) = Inr (JString ''merchant'')"
    using t [of ?T] len(1) by blast
  have b: "determineCheater demo_env ''c0ffee'' (Array ?T1) (Array ?T2) = Inr (JString ''merchant'')"
    using t [of _ ?T1 ?T2] len(2,3) none by blast
  from a b show ?thesis by simp
qed

text \<open>
  C6, as the claim states it, fails: an array of three elements, with
  \<open>COIN_RIS_LENGTH = 2\<close>, is not rejected; passed twice it yields \<^verbatim>\<open>"merchant"\<close>.
\<close>

theorem determineCheater_wrong_length_accepted:
  "length [demo_element 0 True, demo_element 1 True, demo_element 2 True]
     \<noteq> COIN_RIS_LENGTH demo_env
   \<and> determineCheater demo_env ''c0ffee''
       (Array [demo_element 0 True, demo_element 1 True, demo_element 2 True])
       (Array [demo_element 0 True, demo_element 1 True, demo_element 2 True])
     = Inr (JString ''merchant'')"
proof -
  let ?T = "[demo_element 0 True, demo_element 1 True, demo_element 2 True]"
  have "scan demo_env ?T ?T 0 = Inr (JString ''merchant'')"
    by (intro scan_no_hit) (simp_all add: demo_env_simps not_identifies_same_value)
  then show ?thesis by (simp add: determineCheater_def demo_env_simps)
qed

text \<open>
  C6, amended. \<^verbatim>\<open>determineCheater\<close> fails with the error \<^verbatim>\<open>Invalid RIS data format\<close>
  exactly when one of its two inputs is not an array. The length of an array is not
  checked before the scan: only the first \<open>COIN_RIS_LENGTH\<close> positions are read, so
  longer arrays give the result of their prefixes; and when the shorter array ends at a
  position \<open>j\<close> below \<open>COIN_RIS_LENGTH\<close> and no position before \<open>j\<close> identifies a
  purchaser, the read of the missing element throws a TypeError.
\<close>

theorem determineCheater_checks_arrays_only:
  "((determineCheater env g a b = Inl (Error ''Invalid RIS data format''))
      = (a = NotArray \<or> b = NotArray))
   \<and> determineCheater env g (Array ris1) (Array ris2)
       = determineCheater env g (Array (take (COIN_RIS_LENGTH env) ris1))
           (Array (take (COIN_RIS_LENGTH env) ris2))
   \<and> (j < COIN_RIS_LENGTH env \<and> min (length ris1) (length ris2) = j
        \<and> (\<forall>k<j. \<not> identifies env (ris1 ! k) (ris2 ! k))
      \<longrightarrow> determineCheater env g (Array ris1) (Array ris2)
          = Inl (TypeError ''Cannot read properties of undefined (reading value)''))"
proof (intro conjI impI)
  show "(determineCheater env g a b = Inl (Error ''Invalid RIS data format''))
      = (a = NotArray \<or> b = NotArray)"
    by (cases a; cases b) (auto simp: determineCheater_def dest: scan_error)
  show "determineCheater env g (Array ris1) (Array ris2)
       = determineCheater env g (Array (take (COIN_RIS_LENGTH env) ris1))
           (Array (take (COIN_RIS_LENGTH env) ris2))"
    by (simp add: determineCheater_def scan_take)
  assume h: "j < COIN_RIS_LENGTH env \<and> min (length ris1) (length ris2) = j
        \<and> (\<forall>k<j. \<not> identifies env (ris1 ! k) (ris2 ! k))"
  then have "scan env ris1 ris2 0 = scan env ris1 ris2 j"
    by (intro scan_skip_range) auto
  also have "\<dots> = Inl (TypeError ''Cannot read properties of undefined (reading value)'')"
    using h by (intro scan_undefined) auto
  finally show "determineCheater env g (Array ris1) (Array ris2)
          = Inl (TypeError ''Cannot read properties of undefined (reading value)'')"
    by (simp add: determineCheater_def)
qed

theorem determineCheater_checks_arrays_only_witness:
  "determineCheater demo_env ''c0ffee'' NotArray (Array [demo_element 0 True])
     = Inl (Error ''Invalid RIS data format'')
   \<and> determineCheater demo_env ''c0ffee'' (Array [demo_element 0 True]) (Array [demo_element 0 True])
     = Inl (TypeError ''Cannot read properties of undefined (reading value)'')"
proof -
  let ?T = "[demo_element 0 True]"
  note t = determineCheater_checks_arrays_only [of demo_env "''c0ffee''" _ _ ?T ?T 1]
  have hyp: "1 < COIN_RIS_LENGTH demo_env \<and> min (length ?T) (length ?T) = 1
        \<and> (\<forall>k<1. \<not> identifies demo_env (?T ! k) (?T ! k))"
    by (simp add: demo_env_simps not_identifies_same_value)
  have a: "determineCheater demo_env ''c0ffee'' NotArray (Array ?T)
      = Inl (Error ''Invalid RIS data format'')"
    using t [of NotArray "Array ?T"] by blast
  have b: "determineCheater demo_env ''c0ffee'' (Array ?T) (Array ?T)
      = Inl (TypeError ''Cannot read properties of undefined (reading value)'')"
    using t [of NotArray NotArray] hyp by blast
  from a b show ?thesis by simp
qed

text \<open>
  C8. When the one-time-pad decoding throws at a position, the scan goes on with the next
  position; for arrays that hold every position \<^verbatim>\<open>determineCheater\<close> returns a value, and
  the only exceptions that ever leave \<^verbatim>\<open>determineCheater\<close> are the two raised outside
  the \<^verbatim>\<open>try\<close> block (the format check and the read of a missing element).
\<close>

theorem decode_error_recovered:
  "(i < COIN_RIS_LENGTH env \<and> i < length ris1 \<and> i < length ris2
      \<and> strict_neq (value (ris1 ! i)) (value (ris2 ! i))
      \<and> decrypted env (value (ris1 ! i)) (value (ris2 ! i)) = Inl e
      \<longrightarrow> scan env ris1 ris2 i = scan env ris1 ris2 (Suc i))
   \<and> (COIN_RIS_LENGTH env \<le> length ris1 \<and> COIN_RIS_LENGTH env \<le> length ris2
      \<longrightarrow> (\<exists>v. determineCheater env g (Array ris1) (Array ris2) = Inr v))
   \<and> (determineCheater env g a b = Inl err
      \<longrightarrow> err = Error ''Invalid RIS data format''
          \<or> err = TypeError ''Cannot read properties of undefined (reading value)'')"
proof (intro conjI impI)
  assume h: "i < COIN_RIS_LENGTH env \<and> i < length ris1 \<and> i < length ris2
      \<and> strict_neq (value (ris1 ! i)) (value (ris2 ! i))
      \<and> decrypted env (value (ris1 ! i)) (value (ris2 ! i)) = Inl e"
  then have "\<not> identifies env (ris1 ! i) (ris2 ! i)"
    by (simp add: identifies_def)
  with h show "scan env ris1 ris2 i = scan env ris1 ris2 (Suc i)"
    by (intro scan_skip) simp_all
next
  assume "COIN_RIS_LENGTH env \<le> length ris1 \<and> COIN_RIS_LENGTH env \<le> length ris2"
  then show "\<exists>v. determineCheater env g (Array ris1) (Array ris2) = Inr v"
    using scan_returns [of env ris1 ris2 0] by (simp add: determineCheater_def)
next
  assume "determineCheater env g a b = Inl err"
  then show "err = Error ''Invalid RIS data format''
          \<or> err = TypeError ''Cannot read properties of undefined (reading value)''"
    by (auto simp: determineCheater_def split: js_arg.splits dest: scan_error)
qed

theorem decode_error_recovered_witness:
  "decrypted demo_env (JBuffer 9 [0]) (getRis demo_coin True 0)
     = Inl (Error ''The length of the key must match the length of the ciphertext.'')
   \<and> determineCheater demo_env ''c0ffee''
     (Array [(demo_element 0 False)\<lparr>value := JBuffer 9 [0]\<rparr>, demo_element 1 True])
     (Array [demo_element 0 True, demo_element 1 False]) = Inr (JString ''alice'')"
proof -
  let ?T1 = "[(demo_element 0 False)\<lparr>value := JBuffer 9 [0]\<rparr>, demo_element 1 True]"
  let ?T2 = "[demo_element 0 True, demo_element 1 False]"
  have hyp: "0 < COIN_RIS_LENGTH demo_env \<and> 0 < length ?T1 \<and> 0 < length ?T2
      \<and> strict_neq (value (?T1 ! 0)) (value (?T2 ! 0))
      \<and> decrypted demo_env (value (?T1 ! 0)) (value (?T2 ! 0))
          = Inl (Error ''The length of the key must match the length of the ciphertext.'')"
    using demo_decrypted_short by (simp add: demo_env_simps demo_value demo_coin_def)
  have len: "COIN_RIS_LENGTH demo_env \<le> length ?T1 \<and> COIN_RIS_LENGTH demo_env \<le> length ?T2"
    by (simp add: demo_env_simps)
  note t = decode_error_recovered [of 0 demo_env ?T1 ?T2 _ "''c0ffee''" "Array ?T1" "Array ?T2"]
  have step: "scan demo_env ?T1 ?T2 0 = scan demo_env ?T1 ?T2 (Suc 0)"
    using t hyp by blast
  have ret: "\<exists>v. determineCheater demo_env ''c0ffee'' (Array ?T1) (Array ?T2) = Inr v"
    using t len by blast
  have "scan demo_env ?T1 ?T2 (Suc 0) = Inr (js_index (js_split ''IDENT:alice'' CHR '':'') 1)"
    using demo_differ [of 1] demo_decrypted_1
    by (intro scan_hit) (simp_all add: demo_env_simps demo_value startsWith_def)
  with step ret have "determineCheater demo_env ''c0ffee'' (Array ?T1) (Array ?T2)
      = Inr (JString ''alice'')"
    by (simp add: determineCheater_def js_index_def)
  with demo_decrypted_short show ?thesis by simp
qed

text \<open>
  C9. Take a coin constructed for the purchaser \<^verbatim>\<open>alice\<close> (each pair of its shares decodes
  to \<^verbatim>\<open>IDENT_STR:alice\<close>, in either order), an \<open>IDENT_STR\<close> without a colon, and two
  transcripts of the shape that acceptance runs of this coin build. Then
  \<^verbatim>\<open>determineCheater\<close> returns \<^verbatim>\<open>"alice"\<close> or \<^verbatim>\<open>"merchant"\<close>, and nothing else.
\<close>

theorem determineCheater_alice_or_merchant:
  assumes "constructed_for env c ''alice''"
    and "acceptance_transcript env c T1" "acceptance_transcript env c T2"
    and "CHR '':'' \<notin> set (IDENT_STR env)"
  shows "determineCheater env g (Array T1) (Array T2) = Inr (JString ''alice'')
       \<or> determineCheater env g (Array T1) (Array T2) = Inr (JString ''merchant'')"
  using determineCheater_purchaser_or_merchant [OF assms] by simp

theorem determineCheater_alice_or_merchant_witness:
  "constructed_for demo_env demo_coin ''alice''
   \<and> acceptance_transcript demo_env demo_coin [demo_element 0 True, demo_element 1 False]
   \<and> acceptance_transcript demo_env demo_coin [demo_element 0 False, demo_element 1 False]
   \<and> CHR '':'' \<notin> set (IDENT_STR demo_env)
   \<and> (determineCheater demo_env ''c0ffee''
         (Array [demo_element 0 True, demo_element 1 False])
         (Array [demo_element 0 False, demo_element 1 False]) = Inr (JString ''alice'')
      \<or> determineCheater demo_env ''c0ffee''
         (Array [demo_element 0 True, demo_element 1 False])
         (Array [demo_element 0 False, demo_element 1 False]) = Inr (JString ''merchant''))"
proof -
  have colon: "CHR '':'' \<notin> set (IDENT_STR demo_env)"
    by (simp add: demo_env_simps)
  show ?thesis
    using determineCheater_alice_or_merchant [OF demo_constructed_for
        demo_acceptance_transcript [of True False] demo_acceptance_transcript [of False False]
        colon, of "''c0ffee''"]
      demo_constructed_for demo_acceptance_transcript colon
    by blast
qed

section \<open>Claims about verifySignature and acceptCoin\<close>

text \<open>
  C3. When the verification of the signature fails, \<^verbatim>\<open>acceptCoin\<close> throws the
  invalid-signature error and has called no \<^verbatim>\<open>getRis\<close>; and in every run the
  verification is the first event, before any challenge.
\<close>

theorem acceptCoin_invalid_signature:
  "(verifySignature env c = Inr False
      \<longrightarrow> acceptCoin env c randomInt
          = ([VerifySignature], Inl (Error ''Invalid coin signature: Potential forgery detected'')))
   \<and> (verifySignature env c = Inr False
      \<longrightarrow> (\<forall>side i. GetRis side i \<notin> set (fst (acceptCoin env c randomInt))))
   \<and> (\<exists>rest. fst (acceptCoin env c randomInt) = VerifySignature # rest
          \<and> VerifySignature \<notin> set rest)"
proof (intro conjI impI)
  assume "verifySignature env c = Inr False"
  then show "acceptCoin env c randomInt
      = ([VerifySignature], Inl (Error ''Invalid coin signature: Potential forgery detected''))"
    by (rule acceptCoin_rejects)
next
  assume "verifySignature env c = Inr False"
  then show "\<forall>side i. GetRis side i \<notin> set (fst (acceptCoin env c randomInt))"
    by (simp add: acceptCoin_rejects)
next
  have "fst (acceptCoin env c randomInt) = [VerifySignature]"
    using acceptCoin_cases [of env c randomInt] by auto
  then show "\<exists>rest. fst (acceptCoin env c randomInt) = VerifySignature # rest
      \<and> VerifySignature \<notin> set rest"
    by simp
qed

theorem acceptCoin_invalid_signature_witness:
  "verifySignature demo_env unsigned_coin = Inr False
   \<and> acceptCoin demo_env unsigned_coin (\<lambda>i. 0)
       = ([VerifySignature], Inl (Error ''Invalid coin signature: Potential forgery detected''))
   \<and> GetRis True 0 \<notin> set (fst (acceptCoin demo_env unsigned_coin (\<lambda>i. 0)))"
  using acceptCoin_invalid_signature [of demo_env unsigned_coin "\<lambda>i. 0"] unsigned_fails
  by blast

text \<open>
  C5. \<^verbatim>\<open>parseCoin\<close> is bound nowhere in \<^verbatim>\<open>driver.js\<close>, so every call of \<^verbatim>\<open>acceptCoin\<close>
  on a coin whose signature verifies throws a ReferenceError, and no call of
  \<^verbatim>\<open>acceptCoin\<close> returns a transcript.
\<close>

theorem acceptCoin_never_accepts:
  "(verifySignature env c = Inr True
      \<longrightarrow> acceptCoin env c randomInt
          = ([VerifySignature], Inl (ReferenceError ''parseCoin is not defined'')))
   \<and> (\<forall>t. snd (acceptCoin env c randomInt) \<noteq> Inr t)"
proof (intro conjI impI allI)
  assume "verifySignature env c = Inr True"
  then show "acceptCoin env c randomInt
      = ([VerifySignature], Inl (ReferenceError ''parseCoin is not defined''))"
    by (rule acceptCoin_unbound)
next
  fix t
  show "snd (acceptCoin env c randomInt) \<noteq> Inr t"
    using acceptCoin_cases [of env c randomInt] by auto
qed

theorem acceptCoin_never_accepts_witness:
  "verifySignature demo_env demo_coin = Inr True
   \<and> acceptCoin demo_env demo_coin (\<lambda>i. 1)
       = ([VerifySignature], Inl (ReferenceError ''parseCoin is not defined''))"
  using acceptCoin_never_accepts [of demo_env demo_coin "\<lambda>i. 1"] demo_verifies
  by blast

text \<open>
  C10. \<^verbatim>\<open>verifySignature\<close> never throws: whatever is thrown while it verifies (the
  read of an absent signature, the construction of the big integer, the verification
  itself) makes it return \<^verbatim>\<open>false\<close>; otherwise it returns what
  \<^verbatim>\<open>blindSignatures.verify\<close> answers for the message \<^verbatim>\<open>coin.toString()\<close>. It takes no
  message from its caller.
\<close>

theorem verifySignature_catches:
  "(\<exists>b. verifySignature env c = Inr b)
   \<and> (verifySignature_try env c = Inl e \<longrightarrow> verifySignature env c = Inr False)
   \<and> (signature c = None \<longrightarrow> verifySignature env c = Inr False)
   \<and> (signature c = Some s \<and> BigInteger env s = Inl e
        \<longrightarrow> verifySignature env c = Inr False)
   \<and> (signature c = Some s \<and> BigInteger env s = Inr u
        \<and> blindSignatures_verify env u (N env) (E env) (toString c) = Inl e
        \<longrightarrow> verifySignature env c = Inr False)
   \<and> (signature c = Some s \<and> BigInteger env s = Inr u
        \<and> blindSignatures_verify env u (N env) (E env) (toString c) = Inr b
        \<longrightarrow> verifySignature env c = Inr b)"
proof (intro conjI impI)
  show "\<exists>b. verifySignature env c = Inr b"
    by (rule verifySignature_returns)
qed (simp_all add: verifySignature_def verifySignature_try_def)

theorem verifySignature_catches_witness:
  "verifySignature demo_env unsigned_coin = Inr False
   \<and> verifySignature demo_env demo_coin = Inr True"
proof -
  have none: "signature unsigned_coin = None"
    by (simp add: unsigned_coin_def)
  have a: "verifySignature demo_env unsigned_coin = Inr False"
    using verifySignature_catches [of demo_env unsigned_coin] none by blast
  have b: "verifySignature demo_env demo_coin = Inr True"
    using verifySignature_catches [of demo_env demo_coin _ "''6''" 6 True] demo_signature
    by blast
  from a b show ?thesis by simp
qed

text \<open>
  C4 on the code: the coin \<open>tampered_coin\<close> verifies, and its share at position 0 hashes
  to \<^verbatim>\<open>0\<close> where the serialization commits to \<^verbatim>\<open>396\<close>. \<^verbatim>\<open>acceptCoin\<close> throws the
  ReferenceError of \<^verbatim>\<open>parseCoin\<close>, which names no position, and reveals no share. The
  loop, entered with the hash lists of the serialization, would stop at position 0 with
  the error of the claim.
\<close>

theorem acceptCoin_tampered_share:
  "verifySignature demo_env tampered_coin = Inr True
   \<and> utils_hash demo_env (getRis tampered_coin True 0) = Inr ''0''
   \<and> acceptCoin demo_env tampered_coin (\<lambda>i. 0)
       = ([VerifySignature], Inl (ReferenceError ''parseCoin is not defined''))
   \<and> acceptLoop demo_env tampered_coin (\<lambda>i. 0) [''396'', ''539''] [''730'', ''801''] 0
         [VerifySignature] []
       = ([VerifySignature, GetRis True 0], Inl (Error ''RIS validation failed at position 0''))"
proof -
  have "acceptLoop demo_env tampered_coin (\<lambda>i. 0) [''396'', ''539''] [''730'', ''801''] 0
         [VerifySignature] []
       = ([VerifySignature] @ [GetRis ((0::nat) = 0) 0],
          Inl (Error (''RIS validation failed at position '' @ string_of_nat 0)))"
    using demo_hashes(3)
    by (intro acceptLoop_mismatch [where h = "''0''"]) (simp_all add: demo_env_simps js_at_def)
  moreover have "string_of_nat 0 = ''0''"
    by code_simp
  ultimately show ?thesis
    using tampered_verifies demo_hashes(3) acceptCoin_unbound [OF tampered_verifies]
    by simp
qed

text \<open>
  C7 on the code: the coin \<open>demo_coin\<close> verifies and each of its shares hashes to its
  commitment, yet \<^verbatim>\<open>acceptCoin\<close> throws the ReferenceError of \<^verbatim>\<open>parseCoin\<close> and returns
  no transcript. The loop, entered with the hash lists of the serialization, would
  return the transcript of the claim.
\<close>

theorem acceptCoin_valid_coin:
  "verifySignature demo_env demo_coin = Inr True
   \<and> acceptCoin demo_env demo_coin (\<lambda>i. i)
       = ([VerifySignature], Inl (ReferenceError ''parseCoin is not defined''))
   \<and> acceptLoop demo_env demo_coin (\<lambda>i. i) [''396'', ''539''] [''730'', ''801''] 0
         [VerifySignature] []
       = ([VerifySignature, GetRis True 0, GetRis False 1],
          Inr [demo_element 0 True, demo_element 1 False])"
proof -
  let ?lh = "[''396'', ''539'']" and ?rh = "[''730'', ''801'']"
  have e0: "\<lparr>position = 0, isLeft = True, value = getRis demo_coin True 0, hash = ''396''\<rparr>
      = demo_element 0 True"
    by (simp add: demo_element_def demo_digests)
  have e1: "\<lparr>position = 1, isLeft = False, value = getRis demo_coin False 1, hash = ''801''\<rparr>
      = demo_element 1 False"
    using demo_digests(2) by (simp add: demo_element_def)
  have "acceptLoop demo_env demo_coin (\<lambda>i. i) ?lh ?rh 0 [VerifySignature] []
      = acceptLoop demo_env demo_coin (\<lambda>i. i) ?lh ?rh (Suc 0)
          [VerifySignature, GetRis True 0] [demo_element 0 True]"
    using acceptLoop_match [of 0 demo_env demo_coin "\<lambda>i. i" "''396''" ?lh ?rh
        "[VerifySignature]" "[]"] demo_hashes(1) e0
    by (simp add: demo_env_simps js_at_def)
  also have "\<dots> = acceptLoop demo_env demo_coin (\<lambda>i. i) ?lh ?rh (Suc (Suc 0))
          [VerifySignature, GetRis True 0, GetRis False 1]
          [demo_element 0 True, demo_element 1 False]"
    using acceptLoop_match [of "Suc 0" demo_env demo_coin "\<lambda>i. i" "''801''" ?lh ?rh
        "[VerifySignature, GetRis True 0]" "[demo_element 0 True]"] demo_hashes(2) e1
    by (simp add: demo_env_simps js_at_def)
  also have "\<dots> = ([VerifySignature, GetRis True 0, GetRis False 1],
          Inr [demo_element 0 True, demo_element 1 False])"
    by (intro acceptLoop_end) (simp add: demo_env_simps)
  finally show ?thesis
    using demo_verifies acceptCoin_unbound [OF demo_verifies] by simp
qed

end
